theory Spec2Isabelle
  imports Main "HOL-Library.Word"
begin

section \<open>Go values\<close>

text \<open>
  A Go \<open>string\<close> is a sequence of bytes, here a \<open>string\<close> (a list of \<open>char\<close>, one
  per byte).  Go's \<open>int\<close> is taken at 64 bits.
\<close>

type_synonym go_int = "64 word"

definition byte :: "char \<Rightarrow> nat" where
  "byte c = of_char c"

text \<open>
  \<open>string(i)\<close> for an integer \<open>i\<close>: the UTF-8 encoding of the code point \<open>i\<close>, and of
  U+FFFD when \<open>i\<close> is no valid code point.  This is the conversion that
  \<open>unmarshalPostMFA\<close> applies to the status code in its last line.
\<close>

definition replacement :: string where
  "replacement = [CHR 0xEF, CHR 0xBF, CHR 0xBD]"

definition string_of_rune :: "int \<Rightarrow> string" where
  "string_of_rune i =
     (if i < 0 \<or> 0x10FFFF < i \<or> (0xD800 \<le> i \<and> i \<le> 0xDFFF) then replacement
      else if i < 0x80 then [char_of i]
      else if i < 0x800 then [char_of (0xC0 + i div 64), char_of (0x80 + i mod 64)]
      else if i < 0x10000 then
        [char_of (0xE0 + i div 4096), char_of (0x80 + (i div 64) mod 64),
         char_of (0x80 + i mod 64)]
      else
        [char_of (0xF0 + i div 262144), char_of (0x80 + (i div 4096) mod 64),
         char_of (0x80 + (i div 64) mod 64), char_of (0x80 + i mod 64)])"

subsection \<open>UTF-8 as \<open>encoding/json\<close> sees it\<close>

text \<open>
  \<open>json.Marshal\<close> writes a Go string as a JSON string "coerced to valid UTF-8,
  replacing invalid bytes with the Unicode replacement rune".  \<open>rune_size\<close> is the
  number of bytes of the well-formed encoding at the head of a string (Go's
  \<open>utf8.DecodeRuneInString\<close> with its table of accepted ranges), and 0 when the
  head byte starts none.
\<close>

definition cont :: "char \<Rightarrow> bool" where
  "cont c \<longleftrightarrow> 0x80 \<le> byte c \<and> byte c \<le> 0xBF"

definition second_ok :: "nat \<Rightarrow> char \<Rightarrow> bool" where
  "second_ok x b \<longleftrightarrow>
     (if x = 0xE0 then 0xA0 \<le> byte b \<and> byte b \<le> 0xBF
      else if x = 0xED then 0x80 \<le> byte b \<and> byte b \<le> 0x9F
      else if x = 0xF0 then 0x90 \<le> byte b \<and> byte b \<le> 0xBF
      else if x = 0xF4 then 0x80 \<le> byte b \<and> byte b \<le> 0x8F
      else cont b)"

definition rune_size :: "string \<Rightarrow> nat" where
  "rune_size s =
     (case s of
        [] \<Rightarrow> 0
      | a # cs \<Rightarrow>
          if byte a < 0x80 then 1
          else if 0xC2 \<le> byte a \<and> byte a \<le> 0xDF then
            (case cs of b # _ \<Rightarrow> if cont b then 2 else 0 | _ \<Rightarrow> 0)
          else if 0xE0 \<le> byte a \<and> byte a \<le> 0xEF then
            (case cs of
               b # c # _ \<Rightarrow> if second_ok (byte a) b \<and> cont c then 3 else 0
             | _ \<Rightarrow> 0)
          else if 0xF0 \<le> byte a \<and> byte a \<le> 0xF4 then
            (case cs of
               b # c # d # _ \<Rightarrow> if second_ok (byte a) b \<and> cont c \<and> cont d then 4 else 0
             | _ \<Rightarrow> 0)
          else 0)"

fun validUTF8 :: "string \<Rightarrow> bool" where
  "validUTF8 [] = True"
| "validUTF8 (a # cs) =
     (rune_size (a # cs) \<noteq> 0 \<and> validUTF8 (drop (rune_size (a # cs) - 1) cs))"

fun toValidUTF8 :: "string \<Rightarrow> string" where
  "toValidUTF8 [] = []"
| "toValidUTF8 (a # cs) =
     (if rune_size (a # cs) = 0 then replacement @ toValidUTF8 cs
      else a # take (rune_size (a # cs) - 1) cs
             @ toValidUTF8 (drop (rune_size (a # cs) - 1) cs))"

section \<open>JSON documents and \<open>json.Unmarshal\<close>\<close>

text \<open>
  The byte-level syntax of JSON belongs to \<open>encoding/json\<close>, not to this package.  A
  response body is represented by the document its bytes denote: \<open>Some j\<close> for
  well-formed bytes and \<open>None\<close> for bytes that \<open>json.Unmarshal\<close> rejects with a
  syntax error.  Object members are kept in document order, duplicates included; string
  values are the decoded Go strings.  A number is its literal: \<open>IntLit n\<close> for the
  integer literal \<open>n\<close>, and \<open>DecLit m e\<close> for a literal with a fraction or an
  exponent, of value \<open>m * 10 ^ e\<close> (\<open>1.5\<close> is \<open>DecLit 15 (- 1)\<close>, \<open>1e400\<close> is
  \<open>DecLit 1 400\<close>).
\<close>

datatype number = IntLit int | DecLit int int

datatype json =
    JNull
  | JBool bool
  | JNumber number
  | JStr string
  | JArr "json list"
  | JObj "(string \<times> json) list"

type_synonym body = "json option"

text \<open>
  A number bound to a value of type \<open>interface{}\<close> becomes a \<open>float64\<close>, by
  \<open>strconv.ParseFloat\<close>, which reports a range error for a literal that rounds to
  infinity: one whose magnitude reaches \<open>2 ^ 1024 - 2 ^ 970\<close>, half a unit in the
  last place above the largest \<open>float64\<close>.  A literal too small for \<open>float64\<close> becomes
  zero without error.
\<close>

definition float64_limit :: int where
  "float64_limit = 2 ^ 1024 - 2 ^ 970"

fun fits_float64 :: "number \<Rightarrow> bool" where
  "fits_float64 (IntLit n) = (\<bar>n\<bar> < float64_limit)"
| "fits_float64 (DecLit m e) =
     (if 0 \<le> e then \<bar>m\<bar> * 10 ^ nat e < float64_limit
      else \<bar>m\<bar> < float64_limit * 10 ^ nat (- e))"

subsection \<open>Errors\<close>

record plaidError =
  ErrorCode :: string
  ErrorType :: string
  ErrorMessage :: string
  DisplayMessage :: string
  StatusCode :: go_int

text \<open>
  The values of Go's \<open>error\<close> interface that reach this package: the two errors of
  \<open>json.Unmarshal\<close>, the strings of \<open>errors.New\<close>, a \<open>plaidError\<close>, and whatever
  the HTTP client reports.
\<close>

datatype error =
    SyntaxError
  | UnmarshalTypeError
  | ErrorString string
  | PlaidError plaidError
  | TransportError string

definition Error :: "plaidError \<Rightarrow> string" where
  "Error e =
     ''Plaid Error - http status: '' @ ErrorCode e @ '', code: '' @ ErrorType e
       @ '', message: '' @ ErrorMessage e @ '', display: '' @ DisplayMessage e"

subsection \<open>Binding a document to a struct\<close>

text \<open>
  \<open>json.Unmarshal\<close> matches an object key against the \<open>json\<close> tags of the struct
  ignoring case.  For the ASCII tags of this package the keys that match a tag are those
  that fold to it: upper-case ASCII letters fold to lower case, U+212A (Kelvin sign) to
  \<open>k\<close> and U+017F (long s) to \<open>s\<close>.
\<close>

definition lower :: "char \<Rightarrow> char" where
  "lower c = (if 0x41 \<le> byte c \<and> byte c \<le> 0x5A then char_of (byte c + 0x20) else c)"

fun fold_key :: "string \<Rightarrow> string" where
  "fold_key [] = []"
| "fold_key (a # cs) =
     (if a = CHR 0xE2 \<and> take 2 cs = [CHR 0x84, CHR 0xAA] then CHR ''k'' # fold_key (drop 2 cs)
      else if a = CHR 0xC5 \<and> take 1 cs = [CHR 0xBF] then CHR ''s'' # fold_key (drop 1 cs)
      else lower a # fold_key cs)"

text \<open>
  Unmarshal keeps the first type error and goes on; a member that matches no field is
  skipped; \<open>null\<close> leaves a field of struct, string or integer type as it is.  A
  setter binds one member; it returns the updated struct and the error, if any.
\<close>

definition first_error :: "error option \<Rightarrow> error option \<Rightarrow> error option" where
  "first_error e e' = (case e of None \<Rightarrow> e' | Some x \<Rightarrow> Some x)"

fun object_into ::
  "(string \<Rightarrow> json \<Rightarrow> 's \<Rightarrow> 's \<times> error option) \<Rightarrow> (string \<times> json) list \<Rightarrow> 's \<Rightarrow> 's \<times> error option"
where
  "object_into set_field [] s = (s, None)"
| "object_into set_field ((k, v) # ms) s =
     (case set_field k v s of
        (s', e) \<Rightarrow> (case object_into set_field ms s' of (s'', e') \<Rightarrow> (s'', first_error e e')))"

fun bind_struct ::
  "(string \<Rightarrow> json \<Rightarrow> 's \<Rightarrow> 's \<times> error option) \<Rightarrow> json \<Rightarrow> 's \<Rightarrow> 's \<times> error option"
where
  "bind_struct set_field JNull s = (s, None)"
| "bind_struct set_field (JObj ms) s = object_into set_field ms s"
| "bind_struct set_field _ s = (s, Some UnmarshalTypeError)"

fun bind_string :: "json \<Rightarrow> string \<Rightarrow> string \<times> error option" where
  "bind_string JNull cur = (cur, None)"
| "bind_string (JStr s) cur = (s, None)"
| "bind_string _ cur = (cur, Some UnmarshalTypeError)"

fun bind_int :: "json \<Rightarrow> go_int \<Rightarrow> go_int \<times> error option" where
  "bind_int JNull cur = (cur, None)"
| "bind_int (JNumber (IntLit n)) cur =
     (if - (2 ^ 63) \<le> n \<and> n < 2 ^ 63 then (word_of_int n, None)
      else (cur, Some UnmarshalTypeError))"
| "bind_int _ cur = (cur, Some UnmarshalTypeError)"

fun bind_slice :: "(json \<Rightarrow> 'a \<times> error option) \<Rightarrow> json \<Rightarrow> 'a list \<Rightarrow> 'a list \<times> error option" where
  "bind_slice elem JNull cur = ([], None)"
| "bind_slice elem (JArr xs) cur =
     (map (\<lambda>x. fst (elem x)) xs, foldr (\<lambda>x e. first_error (snd (elem x)) e) xs None)"
| "bind_slice elem _ cur = (cur, Some UnmarshalTypeError)"

text \<open>
  Binding to a field of type \<open>interface{}\<close> takes any document.  A number out of the
  \<open>float64\<close> range, at any depth, is a type error, and \<open>nil\<close> is stored in its
  place.
\<close>

fun interface_ok :: "json \<Rightarrow> bool" where
  "interface_ok (JNumber n) = fits_float64 n"
| "interface_ok (JArr xs) = list_all interface_ok xs"
| "interface_ok (JObj ms) = list_all (\<lambda>m. interface_ok (snd m)) ms"
| "interface_ok _ = True"

fun to_interface :: "json \<Rightarrow> json" where
  "to_interface (JNumber n) = (if fits_float64 n then JNumber n else JNull)"
| "to_interface (JArr xs) = JArr (map to_interface xs)"
| "to_interface (JObj ms) = JObj (map (\<lambda>m. (fst m, to_interface (snd m))) ms)"
| "to_interface v = v"

definition bind_interface :: "json \<Rightarrow> json \<times> error option" where
  "bind_interface v =
     (to_interface v, if interface_ok v then None else Some UnmarshalTypeError)"

definition Unmarshal ::
  "(string \<Rightarrow> json \<Rightarrow> 's \<Rightarrow> 's \<times> error option) \<Rightarrow> body \<Rightarrow> 's \<Rightarrow> 's \<times> error option"
where
  "Unmarshal set_field raw s =
     (case raw of None \<Rightarrow> (s, Some SyntaxError) | Some j \<Rightarrow> bind_struct set_field j s)"

section \<open>The response shapes of \<open>plaid.go\<close>\<close>

text \<open>
  Field names are those of the Go structs; where two structs share a field name the
  struct's name is put in front.  A value of type \<open>interface{}\<close> is the document it was
  decoded from, \<open>JNull\<close> standing for \<open>nil\<close>.
\<close>

record mfaIntermediate =
  mfaInter_AccessToken :: string
  mfaInter_MFA :: json
  mfaInter_Type :: string

record mfaDevice =
  Message :: string

record mfaList =
  Mask :: string
  mfaList_Type :: string

record mfaQuestion =
  mfaQuestion_Question :: string

record mfaSelection =
  Answers :: "string list"
  Question :: string

record mfaResponse =
  AccessToken :: string
  Type :: string
  Device :: mfaDevice
  List :: "mfaList list"
  Questions :: "mfaQuestion list"
  Selections :: "mfaSelection list"

record Item =
  InstitutionId :: string
  ItemId :: string
  Webhook :: string

text \<open>
  \<open>Account\<close> and \<open>Transaction\<close> carry floating-point fields; their element types and
  the binding of one array element are parameters \<open>acct\<close> and \<open>txn\<close> of the decoder.
\<close>

record ('a, 't) postResponse =
  post_AccessToken :: string
  AccountId :: string
  Accounts :: "'a list"
  BankAccountToken :: string
  post_MFA :: string
  Transactions :: "'t list"
  TotalTransactions :: go_int
  post_Item :: Item

record Response =
  Status :: string
  Response_StatusCode :: go_int
  Header :: "(string \<times> string) list"

subsection \<open>Zero values\<close>

definition zero_mfaIntermediate :: mfaIntermediate where
  "zero_mfaIntermediate =
     \<lparr>mfaInter_AccessToken = [], mfaInter_MFA = JNull, mfaInter_Type = []\<rparr>"

definition zero_plaidError :: plaidError where
  "zero_plaidError =
     \<lparr>ErrorCode = [], ErrorType = [], ErrorMessage = [], DisplayMessage = [], StatusCode = 0\<rparr>"

definition zero_Item :: Item where
  "zero_Item = \<lparr>InstitutionId = [], ItemId = [], Webhook = []\<rparr>"

definition zero_postResponse :: "('a, 't) postResponse" where
  "zero_postResponse =
     \<lparr>post_AccessToken = [], AccountId = [], Accounts = [], BankAccountToken = [],
      post_MFA = [], Transactions = [], TotalTransactions = 0, post_Item = zero_Item\<rparr>"

subsection \<open>The setters that the \<open>json\<close> tags define\<close>

text \<open>
  A field without a tag is bound under its own name: \<open>StatusCode\<close> of
  \<open>plaidError\<close> takes the value of a key \<open>StatusCode\<close>, in any case, before
  the decoder overwrites it with the status code of the response.
\<close>

definition set_mfaIntermediate ::
  "string \<Rightarrow> json \<Rightarrow> mfaIntermediate \<Rightarrow> mfaIntermediate \<times> error option"
where
  "set_mfaIntermediate key v s =
     (if fold_key key = ''access_token'' then
        (case bind_string v (mfaInter_AccessToken s) of
           (x, e) \<Rightarrow> (s\<lparr>mfaInter_AccessToken := x\<rparr>, e))
      else if fold_key key = ''mfa'' then
        (case bind_interface v of (x, e) \<Rightarrow> (s\<lparr>mfaInter_MFA := x\<rparr>, e))
      else if fold_key key = ''type'' then
        (case bind_string v (mfaInter_Type s) of (x, e) \<Rightarrow> (s\<lparr>mfaInter_Type := x\<rparr>, e))
      else (s, None))"

definition set_plaidError :: "string \<Rightarrow> json \<Rightarrow> plaidError \<Rightarrow> plaidError \<times> error option" where
  "set_plaidError key v s =
     (if fold_key key = ''error_code'' then
        (case bind_string v (ErrorCode s) of (x, e) \<Rightarrow> (s\<lparr>ErrorCode := x\<rparr>, e))
      else if fold_key key = ''error_type'' then
        (case bind_string v (ErrorType s) of (x, e) \<Rightarrow> (s\<lparr>ErrorType := x\<rparr>, e))
      else if fold_key key = ''error_message'' then
        (case bind_string v (ErrorMessage s) of (x, e) \<Rightarrow> (s\<lparr>ErrorMessage := x\<rparr>, e))
      else if fold_key key = ''display_message'' then
        (case bind_string v (DisplayMessage s) of (x, e) \<Rightarrow> (s\<lparr>DisplayMessage := x\<rparr>, e))
      else if fold_key key = ''statuscode'' then
        (case bind_int v (StatusCode s) of (x, e) \<Rightarrow> (s\<lparr>StatusCode := x\<rparr>, e))
      else (s, None))"

definition set_Item :: "string \<Rightarrow> json \<Rightarrow> Item \<Rightarrow> Item \<times> error option" where
  "set_Item key v s =
     (if fold_key key = ''institution_id'' then
        (case bind_string v (InstitutionId s) of (x, e) \<Rightarrow> (s\<lparr>InstitutionId := x\<rparr>, e))
      else if fold_key key = ''item_id'' then
        (case bind_string v (ItemId s) of (x, e) \<Rightarrow> (s\<lparr>ItemId := x\<rparr>, e))
      else if fold_key key = ''webhook'' then
        (case bind_string v (Webhook s) of (x, e) \<Rightarrow> (s\<lparr>Webhook := x\<rparr>, e))
      else (s, None))"

definition set_postResponse ::
  "(json \<Rightarrow> 'a \<times> error option) \<Rightarrow> (json \<Rightarrow> 't \<times> error option) \<Rightarrow>
   string \<Rightarrow> json \<Rightarrow> ('a, 't) postResponse \<Rightarrow> ('a, 't) postResponse \<times> error option"
where
  "set_postResponse acct txn key v s =
     (if fold_key key = ''access_token'' then
        (case bind_string v (post_AccessToken s) of (x, e) \<Rightarrow> (s\<lparr>post_AccessToken := x\<rparr>, e))
      else if fold_key key = ''account_id'' then
        (case bind_string v (AccountId s) of (x, e) \<Rightarrow> (s\<lparr>AccountId := x\<rparr>, e))
      else if fold_key key = ''accounts'' then
        (case bind_slice acct v (Accounts s) of (x, e) \<Rightarrow> (s\<lparr>Accounts := x\<rparr>, e))
      else if fold_key key = ''stripe_bank_account_token'' then
        (case bind_string v (BankAccountToken s) of (x, e) \<Rightarrow> (s\<lparr>BankAccountToken := x\<rparr>, e))
      else if fold_key key = ''mfa'' then
        (case bind_string v (post_MFA s) of (x, e) \<Rightarrow> (s\<lparr>post_MFA := x\<rparr>, e))
      else if fold_key key = ''transactions'' then
        (case bind_slice txn v (Transactions s) of (x, e) \<Rightarrow> (s\<lparr>Transactions := x\<rparr>, e))
      else if fold_key key = ''total_transactions'' then
        (case bind_int v (TotalTransactions s) of (x, e) \<Rightarrow> (s\<lparr>TotalTransactions := x\<rparr>, e))
      else if fold_key key = ''item'' then
        (case bind_struct set_Item v (post_Item s) of (x, e) \<Rightarrow> (s\<lparr>post_Item := x\<rparr>, e))
      else (s, None))"

section \<open>\<open>unmarshalPostMFA\<close>\<close>

subsection \<open>Type assertions and map lookups on the untyped \<open>mfa\<close> value\<close>

text \<open>
  \<open>v.(string)\<close>, \<open>v.([]interface{})\<close> and \<open>v.(map[string]interface{})\<close>, with
  \<open>None\<close> for \<open>ok = false\<close>; \<open>m[key]\<close> on a decoded object, where the last of
  several members with one key is the one the map holds and a missing key gives \<open>nil\<close>.
\<close>

fun as_string :: "json \<Rightarrow> string option" where
  "as_string (JStr s) = Some s"
| "as_string _ = None"

fun as_slice :: "json \<Rightarrow> json list option" where
  "as_slice (JArr xs) = Some xs"
| "as_slice _ = None"

fun as_map :: "json \<Rightarrow> (string \<times> json) list option" where
  "as_map (JObj ms) = Some ms"
| "as_map _ = None"

definition lookup :: "(string \<times> json) list \<Rightarrow> string \<Rightarrow> json" where
  "lookup ms key = (case map_of (rev ms) key of None \<Rightarrow> JNull | Some v \<Rightarrow> v)"

subsection \<open>The four branches of the type switch\<close>

definition decode_device :: "json \<Rightarrow> mfaResponse \<Rightarrow> error + mfaResponse" where
  "decode_device mfa mfaRes =
     (if mfa = JNull then Inl (ErrorString ''Could not decode device mfa'')
      else case as_map mfa of
        None \<Rightarrow> Inl (ErrorString ''Could not decode device mfa'')
      | Some deviceStruct \<Rightarrow>
          (case as_string (lookup deviceStruct ''message'') of
             None \<Rightarrow> Inl (ErrorString ''Could not decode device mfa'')
           | Some deviceText \<Rightarrow> Inr (mfaRes\<lparr>Device := \<lparr>Message = deviceText\<rparr>\<rparr>)))"

fun list_loop :: "json list \<Rightarrow> mfaResponse \<Rightarrow> error + mfaResponse" where
  "list_loop [] mfaRes = Inr mfaRes"
| "list_loop (v # vs) mfaRes =
     (case as_map v of
        None \<Rightarrow> Inl (ErrorString ''Could not decode list mfa'')
      | Some listArray \<Rightarrow>
          (case as_string (lookup listArray ''mask'') of
             None \<Rightarrow> Inl (ErrorString ''Could not decode list mfa'')
           | Some maskText \<Rightarrow>
               (case as_string (lookup listArray ''type'') of
                  None \<Rightarrow> Inl (ErrorString ''Could not decode list mfa'')
                | Some typeText \<Rightarrow>
                    list_loop vs
                      (mfaRes\<lparr>List := List mfaRes @ [\<lparr>Mask = maskText, mfaList_Type = typeText\<rparr>]\<rparr>))))"

definition decode_list :: "json \<Rightarrow> mfaResponse \<Rightarrow> error + mfaResponse" where
  "decode_list mfa mfaRes =
     (case as_slice mfa of
        None \<Rightarrow> Inl (ErrorString ''Could not decode list mfa'')
      | Some temp \<Rightarrow> list_loop temp mfaRes)"

fun questions_loop :: "json list \<Rightarrow> mfaResponse \<Rightarrow> error + mfaResponse" where
  "questions_loop [] mfaRes = Inr mfaRes"
| "questions_loop (v # vs) mfaRes =
     (case as_map v of
        None \<Rightarrow> Inl (ErrorString ''Could not decode questions mfa'')
      | Some q \<Rightarrow>
          (case as_string (lookup q ''question'') of
             None \<Rightarrow> Inl (ErrorString ''Could not decode questions mfa question'')
           | Some questionText \<Rightarrow>
               questions_loop vs
                 (mfaRes\<lparr>Questions := Questions mfaRes @ [\<lparr>mfaQuestion_Question = questionText\<rparr>]\<rparr>)))"

definition decode_questions :: "json \<Rightarrow> mfaResponse \<Rightarrow> error + mfaResponse" where
  "decode_questions mfa mfaRes =
     (case as_slice mfa of
        None \<Rightarrow> Inl (ErrorString ''Could not decode questions mfa'')
      | Some questions \<Rightarrow> questions_loop questions mfaRes)"

text \<open>
  The inner loop over \<open>tempAnswers\<close>: \<open>answers[i], ok = a.(string)\<close> stores the string,
  or the zero value when the assertion fails, and overwrites \<open>ok\<close> at every element;
  \<open>ok\<close> is read once, after the loop.
\<close>

fun answers_loop :: "nat \<Rightarrow> json list \<Rightarrow> string list \<Rightarrow> bool \<Rightarrow> string list \<times> bool" where
  "answers_loop i [] answers ok = (answers, ok)"
| "answers_loop i (a # as) answers ok =
     (case as_string a of
        None \<Rightarrow> answers_loop (Suc i) as (answers[i := []]) False
      | Some x \<Rightarrow> answers_loop (Suc i) as (answers[i := x]) True)"

fun selections_loop :: "json list \<Rightarrow> mfaResponse \<Rightarrow> error + mfaResponse" where
  "selections_loop [] mfaRes = Inr mfaRes"
| "selections_loop (v # vs) mfaRes =
     (case as_map v of
        None \<Rightarrow> Inl (ErrorString ''Could not decode selections mfa'')
      | Some s \<Rightarrow>
          (case as_slice (lookup s ''answers'') of
             None \<Rightarrow> Inl (ErrorString ''Could not decode selections answers'')
           | Some tempAnswers \<Rightarrow>
               (case answers_loop 0 tempAnswers (replicate (length tempAnswers) []) True of
                  (answers, ok) \<Rightarrow>
                    if \<not> ok then Inl (ErrorString ''Could not decode selections answers'')
                    else
                      (case as_string (lookup s ''question'') of
                         None \<Rightarrow> Inl (ErrorString ''Could not decode selections questions'')
                       | Some question \<Rightarrow>
                           selections_loop vs
                             (mfaRes\<lparr>Selections :=
                                Selections mfaRes @ [\<lparr>Answers = answers, Question = question\<rparr>]\<rparr>)))))"

definition decode_selections :: "json \<Rightarrow> mfaResponse \<Rightarrow> error + mfaResponse" where
  "decode_selections mfa mfaRes =
     (case as_slice mfa of
        None \<Rightarrow> Inl (ErrorString ''Could not decode selections mfa'')
      | Some selections \<Rightarrow> selections_loop selections mfaRes)"

subsection \<open>The decoder\<close>

text \<open>
  The three results of the Go function are a triple of options, \<open>None\<close> for \<open>nil\<close>.
\<close>

definition decode_mfa :: "mfaIntermediate \<Rightarrow> error + mfaResponse" where
  "decode_mfa mfaInter =
     (let mfaRes = \<lparr>AccessToken = mfaInter_AccessToken mfaInter, Type = mfaInter_Type mfaInter,
                    Device = \<lparr>Message = []\<rparr>, List = [], Questions = [], Selections = []\<rparr>
      in if mfaInter_Type mfaInter = ''device'' then decode_device (mfaInter_MFA mfaInter) mfaRes
         else if mfaInter_Type mfaInter = ''list'' then decode_list (mfaInter_MFA mfaInter) mfaRes
         else if mfaInter_Type mfaInter = ''questions'' then
           decode_questions (mfaInter_MFA mfaInter) mfaRes
         else if mfaInter_Type mfaInter = ''selections'' then
           decode_selections (mfaInter_MFA mfaInter) mfaRes
         else Inr mfaRes)"

definition unmarshalPostMFA ::
  "(json \<Rightarrow> 'a \<times> error option) \<Rightarrow> (json \<Rightarrow> 't \<times> error option) \<Rightarrow> Response \<Rightarrow> body \<Rightarrow>
   ('a, 't) postResponse option \<times> mfaResponse option \<times> error option"
where
  "unmarshalPostMFA acct txn res raw =
     (if Response_StatusCode res = 200 then
        (case Unmarshal (set_postResponse acct txn) raw zero_postResponse of
           (postRes, Some err) \<Rightarrow> (None, None, Some err)
         | (postRes, None) \<Rightarrow> (Some postRes, None, None))
      else if Response_StatusCode res = 201 then
        (case Unmarshal set_mfaIntermediate raw zero_mfaIntermediate of
           (mfaInter, Some err) \<Rightarrow> (None, None, Some err)
         | (mfaInter, None) \<Rightarrow>
             (case decode_mfa mfaInter of
                Inl err \<Rightarrow> (None, None, Some err)
              | Inr mfaRes \<Rightarrow> (None, Some mfaRes, None)))
      else if 400 \<le> sint (Response_StatusCode res) then
        (case Unmarshal set_plaidError raw zero_plaidError of
           (plaidErr, Some err) \<Rightarrow> (None, None, Some err)
         | (plaidErr, None) \<Rightarrow>
             (None, None, Some (PlaidError (plaidErr\<lparr>StatusCode := Response_StatusCode res\<rparr>))))
      else
        (None, None,
         Some (ErrorString
           (''Unknown Plaid Error - Status:'' @ string_of_rune (sint (Response_StatusCode res))))))"

section \<open>Transport and endpoint wrappers\<close>

text \<open>
  The HTTP client is a parameter: given method, URL, headers and request document it
  reports where the exchange stopped.  \<open>NewRequestError\<close>, \<open>DoError\<close> and
  \<open>ReadAllError\<close> are the three \<open>err != nil\<close> exits of \<open>postAndUnmarshal\<close>
  (\<open>ioutil.ReadAll\<close> also hands back what it read before failing).
\<close>

datatype transport_result =
    NewRequestError error
  | DoError error
  | ReadAllError error body
  | Received Response body

type_synonym transport = "string \<Rightarrow> string \<Rightarrow> (string \<times> string) list \<Rightarrow> json \<Rightarrow> transport_result"

record Client =
  clientID :: string
  secret :: string
  environment :: string
  httpClient :: transport

definition postAndUnmarshal ::
  "(json \<Rightarrow> 'a \<times> error option) \<Rightarrow> (json \<Rightarrow> 't \<times> error option) \<Rightarrow> Client \<Rightarrow> string \<Rightarrow> json \<Rightarrow>
   ('a, 't) postResponse option \<times> mfaResponse option \<times> error option"
where
  "postAndUnmarshal acct txn c endpoint payload =
     (case httpClient c ''POST'' (environment c @ endpoint)
             [(''Content-Type'', ''application/json''), (''User-Agent'', ''plaid-go'')] payload of
        NewRequestError err \<Rightarrow> (None, None, Some err)
      | DoError err \<Rightarrow> (None, None, Some err)
      | ReadAllError err partial \<Rightarrow> (None, None, Some err)
      | Received res raw \<Rightarrow> unmarshalPostMFA acct txn res raw)"

subsection \<open>The transactions request\<close>

record TransactionOptionsJson =
  Count :: go_int
  Offset :: go_int

record transactionJson =
  ClientID :: string
  Secret :: string
  transactionJson_AccessToken :: string
  StartDate :: string
  EndDate :: string
  Options :: TransactionOptionsJson

text \<open>
  \<open>json.Marshal\<close> of a \<open>transactionJson\<close>: the document that the emitted bytes
  denote.  Fields come in declaration order under their \<open>json\<close> tags, strings coerced
  to valid UTF-8, integers in decimal.  Marshalling a struct of strings and integers
  returns no error.
\<close>

definition Marshal_TransactionOptionsJson :: "TransactionOptionsJson \<Rightarrow> json" where
  "Marshal_TransactionOptionsJson opts =
     JObj [(''count'', JNumber (IntLit (sint (Count opts)))),
           (''offset'', JNumber (IntLit (sint (Offset opts))))]"

definition Marshal_transactionJson :: "transactionJson \<Rightarrow> error + json" where
  "Marshal_transactionJson t =
     Inr (JObj [(''client_id'', JStr (toValidUTF8 (ClientID t))),
                (''secret'', JStr (toValidUTF8 (Secret t))),
                (''access_token'', JStr (toValidUTF8 (transactionJson_AccessToken t))),
                (''start_date'', JStr (toValidUTF8 (StartDate t))),
                (''end_date'', JStr (toValidUTF8 (EndDate t))),
                (''options'', Marshal_TransactionOptionsJson (Options t))])"

definition Client_Transactions ::
  "(json \<Rightarrow> 'a \<times> error option) \<Rightarrow> (json \<Rightarrow> 't \<times> error option) \<Rightarrow> Client \<Rightarrow>
   string \<Rightarrow> string \<Rightarrow> string \<Rightarrow> TransactionOptionsJson \<Rightarrow>
   ('a, 't) postResponse option \<times> error option"
where
  "Client_Transactions acct txn c accessToken startDate endDate options =
     (case Marshal_transactionJson
             \<lparr>ClientID = clientID c, Secret = secret c,
              transactionJson_AccessToken = accessToken, StartDate = startDate,
              EndDate = endDate, Options = options\<rparr> of
        Inl err \<Rightarrow> (None, Some err)
      | Inr jsonText \<Rightarrow>
          (case postAndUnmarshal acct txn c ''/transactions/get'' jsonText of
             (postRes, mfaRes, err) \<Rightarrow> (postRes, err)))"

text \<open>
  Reading a request document back into a \<open>transactionJson\<close>, by the binding that the
  struct's \<open>json\<close> tags define.
\<close>

definition zero_TransactionOptionsJson :: TransactionOptionsJson where
  "zero_TransactionOptionsJson = \<lparr>Count = 0, Offset = 0\<rparr>"

definition zero_transactionJson :: transactionJson where
  "zero_transactionJson =
     \<lparr>ClientID = [], Secret = [], transactionJson_AccessToken = [], StartDate = [],
      EndDate = [], Options = zero_TransactionOptionsJson\<rparr>"

definition set_TransactionOptionsJson ::
  "string \<Rightarrow> json \<Rightarrow> TransactionOptionsJson \<Rightarrow> TransactionOptionsJson \<times> error option"
where
  "set_TransactionOptionsJson key v s =
     (if fold_key key = ''count'' then
        (case bind_int v (Count s) of (x, e) \<Rightarrow> (s\<lparr>Count := x\<rparr>, e))
      else if fold_key key = ''offset'' then
        (case bind_int v (Offset s) of (x, e) \<Rightarrow> (s\<lparr>Offset := x\<rparr>, e))
      else (s, None))"

definition set_transactionJson ::
  "string \<Rightarrow> json \<Rightarrow> transactionJson \<Rightarrow> transactionJson \<times> error option"
where
  "set_transactionJson key v s =
     (if fold_key key = ''client_id'' then
        (case bind_string v (ClientID s) of (x, e) \<Rightarrow> (s\<lparr>ClientID := x\<rparr>, e))
      else if fold_key key = ''secret'' then
        (case bind_string v (Secret s) of (x, e) \<Rightarrow> (s\<lparr>Secret := x\<rparr>, e))
      else if fold_key key = ''access_token'' then
        (case bind_string v (transactionJson_AccessToken s) of
           (x, e) \<Rightarrow> (s\<lparr>transactionJson_AccessToken := x\<rparr>, e))
      else if fold_key key = ''start_date'' then
        (case bind_string v (StartDate s) of (x, e) \<Rightarrow> (s\<lparr>StartDate := x\<rparr>, e))
      else if fold_key key = ''end_date'' then
        (case bind_string v (EndDate s) of (x, e) \<Rightarrow> (s\<lparr>EndDate := x\<rparr>, e))
      else if fold_key key = ''options'' then
        (case bind_struct set_TransactionOptionsJson v (Options s) of
           (x, e) \<Rightarrow> (s\<lparr>Options := x\<rparr>, e))
      else (s, None))"

definition roundtrip_transactionJson :: "transactionJson \<Rightarrow> transactionJson \<times> error option" where
  "roundtrip_transactionJson t =
     (case Marshal_transactionJson t of
        Inl err \<Rightarrow> (zero_transactionJson, Some err)
      | Inr jsonText \<Rightarrow> Unmarshal set_transactionJson (Some jsonText) zero_transactionJson)"

subsection \<open>\<open>GetInstitutionById\<close>\<close>

record institutionJson =
  institutionJson_InstitutionId :: string
  PublicKey :: string

record Institution =
  Name :: string

record InstitutionJson =
  InstitutionJson_Institution :: Institution

definition Marshal_institutionJson :: "institutionJson \<Rightarrow> json" where
  "Marshal_institutionJson r =
     JObj [(''institution_id'', JStr (toValidUTF8 (institutionJson_InstitutionId r))),
           (''public_key'', JStr (toValidUTF8 (PublicKey r)))]"

definition set_Institution :: "string \<Rightarrow> json \<Rightarrow> Institution \<Rightarrow> Institution \<times> error option" where
  "set_Institution key v s =
     (if fold_key key = ''name'' then
        (case bind_string v (Name s) of (x, e) \<Rightarrow> (s\<lparr>Name := x\<rparr>, e))
      else (s, None))"

definition set_InstitutionJson ::
  "string \<Rightarrow> json \<Rightarrow> InstitutionJson \<Rightarrow> InstitutionJson \<times> error option"
where
  "set_InstitutionJson key v s =
     (if fold_key key = ''institution'' then
        (case bind_struct set_Institution v (InstitutionJson_Institution s) of
           (x, e) \<Rightarrow> (s\<lparr>InstitutionJson_Institution := x\<rparr>, e))
      else (s, None))"

text \<open>
  The function has one result, a string, and no error result.  A run either panics or
  returns the string, having printed some errors on standard output on the way.
  The error of \<open>http.NewRequest\<close> is overwritten unread, so a failed request
  construction reaches \<open>req.Header.Set\<close> with a nil request; the error of
  \<open>ioutil.ReadAll\<close> is dropped and the bytes read so far are decoded.
\<close>

datatype run = Panics error | Returns string "error list"

definition GetInstitutionById :: "transport \<Rightarrow> string \<Rightarrow> string \<Rightarrow> run" where
  "GetInstitutionById http publicKey institutionId =
     (let url = ''https://production.plaid.com/institutions/get_by_id'';
          jsonText = Marshal_institutionJson
            \<lparr>institutionJson_InstitutionId = institutionId, PublicKey = publicKey\<rparr>;
          decode = (\<lambda>raw.
            case Unmarshal set_InstitutionJson raw
                   \<lparr>InstitutionJson_Institution = \<lparr>Name = []\<rparr>\<rparr> of
              (institutionResult, Some marshalErr) \<Rightarrow>
                Returns (Name (InstitutionJson_Institution institutionResult)) [marshalErr]
            | (institutionResult, None) \<Rightarrow>
                Returns (Name (InstitutionJson_Institution institutionResult)) [])
      in case http ''POST'' url
                [(''X-Custom-Header'', ''myvalue''), (''Content-Type'', ''application/json'')]
                jsonText of
           NewRequestError err \<Rightarrow>
             Panics (ErrorString ''invalid memory address or nil pointer dereference'')
         | DoError err \<Rightarrow> Panics err
         | ReadAllError err partial \<Rightarrow> decode partial
         | Received resp raw \<Rightarrow> decode raw)"

section \<open>The selections shape, in the words of the specification\<close>

text \<open>
  A selections payload is an array of objects, each with a field \<open>answers\<close> that is an
  array of strings and a field \<open>question\<close> that is a string.  \<open>no_stray_answer\<close>
  holds of a payload in which every entry of every \<open>answers\<close> array is a string.
\<close>

definition is_string :: "json \<Rightarrow> bool" where
  "is_string v = (case as_string v of None \<Rightarrow> False | Some s \<Rightarrow> True)"

definition selection_shape :: "json \<Rightarrow> bool" where
  "selection_shape v =
     (case as_map v of
        None \<Rightarrow> False
      | Some s \<Rightarrow>
          (case as_slice (lookup s ''answers'') of
             None \<Rightarrow> False
           | Some answers \<Rightarrow> list_all is_string answers)
          \<and> is_string (lookup s ''question''))"

definition selections_shape :: "json \<Rightarrow> bool" where
  "selections_shape mfa =
     (case as_slice mfa of None \<Rightarrow> False | Some xs \<Rightarrow> list_all selection_shape xs)"

definition answers_entries_strings :: "json \<Rightarrow> bool" where
  "answers_entries_strings v =
     (case as_map v of
        None \<Rightarrow> True
      | Some s \<Rightarrow>
          (case as_slice (lookup s ''answers'') of
             None \<Rightarrow> True
           | Some answers \<Rightarrow> list_all is_string answers))"

definition no_stray_answer :: "json \<Rightarrow> bool" where
  "no_stray_answer mfa =
     (case as_slice mfa of None \<Rightarrow> True | Some xs \<Rightarrow> list_all answers_entries_strings xs)"

text \<open>
  The message by cause.  An element fails as no object, or by its \<open>answers\<close> being
  no array, or by its \<open>question\<close> being no string, in this order; a payload fails
  as no array, or by its first element that has not the shape.
\<close>

definition element_failure :: "json \<Rightarrow> string option" where
  "element_failure v =
     (case as_map v of
        None \<Rightarrow> Some ''Could not decode selections mfa''
      | Some s \<Rightarrow>
          (case as_slice (lookup s ''answers'') of
             None \<Rightarrow> Some ''Could not decode selections answers''
           | Some answers \<Rightarrow>
               (case as_string (lookup s ''question'') of
                  None \<Rightarrow> Some ''Could not decode selections questions''
                | Some question \<Rightarrow> None)))"

definition selections_failure :: "json \<Rightarrow> string option" where
  "selections_failure mfa =
     (case as_slice mfa of
        None \<Rightarrow> Some ''Could not decode selections mfa''
      | Some xs \<Rightarrow>
          (case find (\<lambda>v. \<not> selection_shape v) xs of
             None \<Rightarrow> None
           | Some v \<Rightarrow> element_failure v))"

section \<open>Stand-ins for the surroundings\<close>

text \<open>
  An element binder that accepts every document, for responses whose accounts and
  transactions do not matter, and a server that gives one reply to every request.
\<close>

definition skip_element :: "json \<Rightarrow> unit \<times> error option" where
  "skip_element j = ((), None)"

definition replies :: "transport_result \<Rightarrow> transport" where
  "replies r method url headers payload = r"

section \<open>Evaluation rules for concrete documents\<close>

lemmas binding_eval =
  Unmarshal_def first_error_def lower_def byte_def lookup_def
  set_mfaIntermediate_def zero_mfaIntermediate_def bind_interface_def float64_limit_def
  set_plaidError_def zero_plaidError_def

lemmas mfa_eval =
  decode_mfa_def decode_device_def decode_list_def decode_questions_def decode_selections_def

lemma outcome_shapes:
  "(\<exists>postRes. unmarshalPostMFA acct txn res raw = (Some postRes, None, None))
   \<or> (\<exists>mfaRes. unmarshalPostMFA acct txn res raw = (None, Some mfaRes, None))
   \<or> (\<exists>err. unmarshalPostMFA acct txn res raw = (None, None, Some err))"
  by (simp add: unmarshalPostMFA_def split: prod.splits option.splits sum.splits)

lemma to_interface_ok: "interface_ok v \<Longrightarrow> to_interface v = v"
  by (induction v rule: to_interface.induct) (auto simp: list_all_iff map_idI)

lemma intermediate_binds:
  "interface_ok mfa \<Longrightarrow>
   Unmarshal set_mfaIntermediate
     (Some (JObj [(''access_token'', JStr tok), (''type'', JStr ty), (''mfa'', mfa)]))
     zero_mfaIntermediate
   = (\<lparr>mfaInter_AccessToken = tok, mfaInter_MFA = mfa, mfaInter_Type = ty\<rparr>, None)"
  by (simp add: Unmarshal_def first_error_def lower_def byte_def set_mfaIntermediate_def
        zero_mfaIntermediate_def bind_interface_def to_interface_ok)

lemma intermediate_overflow:
  "\<not> interface_ok mfa \<Longrightarrow>
   snd (Unmarshal set_mfaIntermediate
          (Some (JObj [(''access_token'', JStr tok), (''type'', JStr ty), (''mfa'', mfa)]))
          zero_mfaIntermediate)
   = Some UnmarshalTypeError"
  by (simp add: Unmarshal_def first_error_def lower_def byte_def set_mfaIntermediate_def
        zero_mfaIntermediate_def bind_interface_def)

lemma unmarshalPostMFA_dispatch:
  "(Response_StatusCode res = 200 \<longrightarrow>
      unmarshalPostMFA acct txn res raw =
        (case Unmarshal (set_postResponse acct txn) raw zero_postResponse of
           (postRes, None) \<Rightarrow> (Some postRes, None, None)
         | (postRes, Some err) \<Rightarrow> (None, None, Some err)))
   \<and> (Response_StatusCode res = 201 \<longrightarrow>
      unmarshalPostMFA acct txn res raw =
        (case Unmarshal set_mfaIntermediate raw zero_mfaIntermediate of
           (mfaInter, None) \<Rightarrow>
             (case decode_mfa mfaInter of
                Inr mfaRes \<Rightarrow> (None, Some mfaRes, None)
              | Inl err \<Rightarrow> (None, None, Some err))
         | (mfaInter, Some err) \<Rightarrow> (None, None, Some err)))
   \<and> (400 \<le> sint (Response_StatusCode res) \<longrightarrow>
      unmarshalPostMFA acct txn res raw =
        (case Unmarshal set_plaidError raw zero_plaidError of
           (plaidErr, None) \<Rightarrow>
             (None, None, Some (PlaidError (plaidErr\<lparr>StatusCode := Response_StatusCode res\<rparr>)))
         | (plaidErr, Some err) \<Rightarrow> (None, None, Some err)))
   \<and> (Response_StatusCode res \<noteq> 200 \<and> Response_StatusCode res \<noteq> 201
        \<and> sint (Response_StatusCode res) < 400 \<longrightarrow>
      unmarshalPostMFA acct txn res raw =
        (None, None,
         Some (ErrorString (''Unknown Plaid Error - Status:''
                 @ string_of_rune (sint (Response_StatusCode res))))))"
proof -
  have "400 \<le> sint (Response_StatusCode res) \<Longrightarrow>
        Response_StatusCode res \<noteq> 200 \<and> Response_StatusCode res \<noteq> 201"
    by auto
  then show ?thesis
    by (auto simp: unmarshalPostMFA_def split: prod.splits option.splits sum.splits)
qed

section \<open>The decoder returns one outcome\<close>

text \<open>
  Claim C1.  For every status code and every body, \<open>unmarshalPostMFA\<close> returns exactly
  one of its three results: a success payload with no challenge and no error, or a
  challenge with no payload and no error, or an error with neither.
\<close>

theorem unmarshalPostMFA_exactly_one:
  "(\<exists>postRes. unmarshalPostMFA acct txn res raw = (Some postRes, None, None))
   \<or> (\<exists>mfaRes. unmarshalPostMFA acct txn res raw = (None, Some mfaRes, None))
   \<or> (\<exists>err. unmarshalPostMFA acct txn res raw = (None, None, Some err))"
  by (cases "Response_StatusCode res = 200"; cases "Response_StatusCode res = 201";
      cases "400 \<le> sint (Response_StatusCode res)")
     (simp_all add: unmarshalPostMFA_def split: prod.splits option.splits sum.splits)

theorem unmarshalPostMFA_exactly_one_witness:
  "(\<exists>postRes. unmarshalPostMFA (\<lambda>j. ((), None)) (\<lambda>j. ((), None))
       \<lparr>Status = ''201 Created'', Response_StatusCode = 201, Header = []\<rparr>
       (Some (JObj [(''type'', JStr ''device''), (''mfa'', JObj [(''message'', JStr ''call'')])]))
       = (Some postRes, None, None))
   \<or> (\<exists>mfaRes. unmarshalPostMFA (\<lambda>j. ((), None)) (\<lambda>j. ((), None))
       \<lparr>Status = ''201 Created'', Response_StatusCode = 201, Header = []\<rparr>
       (Some (JObj [(''type'', JStr ''device''), (''mfa'', JObj [(''message'', JStr ''call'')])]))
       = (None, Some mfaRes, None))
   \<or> (\<exists>err. unmarshalPostMFA (\<lambda>j. ((), None)) (\<lambda>j. ((), None))
       \<lparr>Status = ''201 Created'', Response_StatusCode = 201, Header = []\<rparr>
       (Some (JObj [(''type'', JStr ''device''), (''mfa'', JObj [(''message'', JStr ''call'')])]))
       = (None, None, Some err))"
  by (rule unmarshalPostMFA_exactly_one)

section \<open>Dispatch on the status code\<close>

text \<open>
  Claim C2.  The decoder chooses the shape by the status code alone
  (\<open>unmarshalPostMFA_dispatch\<close>), and a code that is neither 200 nor 201 nor at least
  400 gives an error.  The message of that error does not show the code:
  \<open>string(res.StatusCode)\<close> converts the integer to the character with that code
  point, so status 302 gives \<open>Unknown Plaid Error - Status:\<close> followed by the two
  bytes \<open>C4 AE\<close> of U+012E, not by \<open>302\<close>.
\<close>

theorem unknown_status_message_is_code_point:
  "unmarshalPostMFA acct txn \<lparr>Status = st, Response_StatusCode = 302, Header = hdr\<rparr> raw
   = (None, None, Some (ErrorString (''Unknown Plaid Error - Status:'' @ [CHR 0xC4, CHR 0xAE])))
   \<and> ''Unknown Plaid Error - Status:'' @ [CHR 0xC4, CHR 0xAE]
       \<noteq> ''Unknown Plaid Error - Status:302''"
  by (simp add: unmarshalPostMFA_def string_of_rune_def char_of_def)

text \<open>
  A code that is no code point, such as a negative one, gives U+FFFD, whatever the
  code.
\<close>

lemma unknown_status_negative:
  "sint (Response_StatusCode res) < 0 \<Longrightarrow>
   unmarshalPostMFA acct txn res raw
   = (None, None, Some (ErrorString (''Unknown Plaid Error - Status:'' @ replacement)))"
proof -
  assume neg: "sint (Response_StatusCode res) < 0"
  then have "Response_StatusCode res \<noteq> 200" "Response_StatusCode res \<noteq> 201" by auto
  with neg show ?thesis
    by (simp add: unmarshalPostMFA_def string_of_rune_def)
qed

section \<open>Unknown challenge types\<close>

lemma unknown_type_after_binding:
  assumes "Response_StatusCode res = 201"
    and "Unmarshal set_mfaIntermediate raw zero_mfaIntermediate = (mfaInter, None)"
    and "mfaInter_Type mfaInter \<notin> {''device'', ''list'', ''questions'', ''selections''}"
  shows "unmarshalPostMFA acct txn res raw =
           (None,
            Some \<lparr>AccessToken = mfaInter_AccessToken mfaInter, Type = mfaInter_Type mfaInter,
                  Device = \<lparr>Message = []\<rparr>, List = [], Questions = [], Selections = []\<rparr>,
            None)"
  using assms by (simp add: unmarshalPostMFA_def decode_mfa_def)

text \<open>
  Claim C6, as the code has it.  The \<open>mfa\<close> value is bound to an \<open>interface{}\<close>
  before the type is looked at, and that binding fails on a number out of the
  \<open>float64\<close> range.  At status 201, a body with a string \<open>access_token\<close>, a string
  \<open>type\<close> that is none of \<open>device\<close>, \<open>list\<close>, \<open>questions\<close>, \<open>selections\<close>, and an
  \<open>mfa\<close> value all of whose numbers are in the \<open>float64\<close> range decodes, without
  error, to a challenge holding the access token and the type, with an empty device
  message and empty lists.
\<close>

theorem unknown_type_gives_bare_challenge:
  assumes "ty \<notin> {''device'', ''list'', ''questions'', ''selections''}"
    and "interface_ok mfa"
  shows "unmarshalPostMFA acct txn
           \<lparr>Status = st, Response_StatusCode = 201, Header = hdr\<rparr>
           (Some (JObj [(''access_token'', JStr tok), (''type'', JStr ty), (''mfa'', mfa)]))
         = (None,
            Some \<lparr>AccessToken = tok, Type = ty, Device = \<lparr>Message = []\<rparr>, List = [],
                  Questions = [], Selections = []\<rparr>,
            None)"
  using assms(1) intermediate_binds [OF assms(2), of tok ty]
  by (simp add: unmarshalPostMFA_def decode_mfa_def)

theorem unknown_type_gives_bare_challenge_witness:
  "unmarshalPostMFA skip_element skip_element
     \<lparr>Status = ''201 Created'', Response_StatusCode = 201, Header = []\<rparr>
     (Some (JObj [(''access_token'', JStr ''tok''), (''type'', JStr ''unknown_tag''),
                  (''mfa'', JArr [JNumber (IntLit 1), JObj [(''message'', JNull)]])]))
   = (None,
      Some \<lparr>AccessToken = ''tok'', Type = ''unknown_tag'',
            Device = \<lparr>Message = []\<rparr>, List = [], Questions = [], Selections = []\<rparr>,
      None)"
proof -
  have t: "''unknown_tag'' \<notin> {''device'', ''list'', ''questions'', ''selections''}"
    by simp
  have m: "interface_ok (JArr [JNumber (IntLit 1), JObj [(''message'', JNull)]])"
    by (simp add: float64_limit_def)
  show ?thesis
    by (rule unknown_type_gives_bare_challenge [OF t m])
qed

text \<open>
  The claim as stated fails for the \<open>mfa\<close> value \<open>1e400\<close>: the decoder returns the
  type error of \<open>json.Unmarshal\<close> and no challenge.
\<close>

theorem unknown_type_overflow_counterexample:
  "unmarshalPostMFA skip_element skip_element
     \<lparr>Status = ''201 Created'', Response_StatusCode = 201, Header = []\<rparr>
     (Some (JObj [(''access_token'', JStr ''tok''), (''type'', JStr ''unknown_tag''),
                  (''mfa'', JNumber (DecLit 1 400))]))
   = (None, None, Some UnmarshalTypeError)"
  by (simp add: unmarshalPostMFA_def binding_eval)

section \<open>A remote failure\<close>

text \<open>
  Claim C7.  At status 404 the body with \<open>error_code\<close> \<open>ITEM_NOT_FOUND\<close>,
  \<open>error_type\<close> \<open>ITEM_ERROR\<close> and any \<open>error_message\<close> decodes to the
  \<open>plaidError\<close> with these three strings unchanged and status code 404.
\<close>

theorem item_not_found_failure:
  "unmarshalPostMFA acct txn \<lparr>Status = st, Response_StatusCode = 404, Header = hdr\<rparr>
     (Some (JObj [(''error_code'', JStr ''ITEM_NOT_FOUND''), (''error_type'', JStr ''ITEM_ERROR''),
                  (''error_message'', JStr msg)]))
   = (None, None,
      Some (PlaidError \<lparr>ErrorCode = ''ITEM_NOT_FOUND'', ErrorType = ''ITEM_ERROR'',
              ErrorMessage = msg, DisplayMessage = [], StatusCode = 404\<rparr>))"
  by (simp add: unmarshalPostMFA_def binding_eval)

theorem item_not_found_failure_witness:
  "unmarshalPostMFA (\<lambda>j. ((), None)) (\<lambda>j. ((), None))
     \<lparr>Status = ''404 Not Found'', Response_StatusCode = 404, Header = []\<rparr>
     (Some (JObj [(''error_code'', JStr ''ITEM_NOT_FOUND''), (''error_type'', JStr ''ITEM_ERROR''),
                  (''error_message'', JStr ''no such item'')]))
   = (None, None,
      Some (PlaidError \<lparr>ErrorCode = ''ITEM_NOT_FOUND'', ErrorType = ''ITEM_ERROR'',
              ErrorMessage = ''no such item'', DisplayMessage = [], StatusCode = 404\<rparr>))"
  by (rule item_not_found_failure)

section \<open>Determinism\<close>

text \<open>
  Claim C9.  The outcome is a function of the status code and the body: two runs on the
  same body and the same status code return equal outcomes, whatever else the two
  responses hold.
\<close>

theorem outcome_depends_on_status_and_body_only:
  "Response_StatusCode res = Response_StatusCode res' \<Longrightarrow>
   unmarshalPostMFA acct txn res raw = unmarshalPostMFA acct txn res' raw"
  by (simp add: unmarshalPostMFA_def)

theorem outcome_depends_on_status_and_body_only_witness:
  "Response_StatusCode \<lparr>Status = ''201 Created'', Response_StatusCode = 201, Header = []\<rparr>
     = Response_StatusCode
         \<lparr>Status = ''201'', Response_StatusCode = 201, Header = [(''Server'', ''nginx'')]\<rparr>
   \<and> unmarshalPostMFA (\<lambda>j. ((), None)) (\<lambda>j. ((), None))
        \<lparr>Status = ''201 Created'', Response_StatusCode = 201, Header = []\<rparr>
        (Some (JObj [(''type'', JStr ''list''), (''mfa'', JNull)]))
     = unmarshalPostMFA (\<lambda>j. ((), None)) (\<lambda>j. ((), None))
        \<lparr>Status = ''201'', Response_StatusCode = 201, Header = [(''Server'', ''nginx'')]\<rparr>
        (Some (JObj [(''type'', JStr ''list''), (''mfa'', JNull)]))"
proof -
  have h: "Response_StatusCode \<lparr>Status = ''201 Created'', Response_StatusCode = 201, Header = []\<rparr>
     = Response_StatusCode
         \<lparr>Status = ''201'', Response_StatusCode = 201, Header = [(''Server'', ''nginx'')]\<rparr>"
    by simp
  from h outcome_depends_on_status_and_body_only [OF h] show ?thesis
    by blast
qed

section \<open>The selections branch\<close>

lemma answers_loop_ok:
  "list_all is_string as \<Longrightarrow> ok \<Longrightarrow> snd (answers_loop i as answers ok)"
  by (induction as arbitrary: i answers ok) (auto simp: is_string_def split: option.splits)

lemma answers_loop_values:
  "list_all is_string as \<Longrightarrow> i + length as \<le> length answers \<Longrightarrow>
   fst (answers_loop i as answers ok) = take i answers @ map (\<lambda>a. the (as_string a)) as @ drop (i + length as) answers"
proof (induction as arbitrary: i answers ok)
  case Nil
  then show ?case by simp
next
  case (Cons a as)
  then obtain x where x: "as_string a = Some x"
    by (auto simp: is_string_def split: option.splits)
  from Cons.prems have len: "i < length answers" by simp
  from Cons.prems have "fst (answers_loop (Suc i) as (answers[i := x]) True)
     = take (Suc i) (answers[i := x]) @ map (\<lambda>a. the (as_string a)) as
         @ drop (Suc i + length as) (answers[i := x])"
    by (intro Cons.IH) simp_all
  with x len show ?case
    by (simp add: take_Suc_conv_app_nth)
qed

lemma selections_loop_fails:
  "list_all answers_entries_strings xs \<Longrightarrow> find (\<lambda>v. \<not> selection_shape v) xs = Some v \<Longrightarrow>
   \<exists>msg. element_failure v = Some msg \<and> selections_loop xs mfaRes = Inl (ErrorString msg)"
proof (induction xs arbitrary: mfaRes)
  case Nil
  then show ?case by simp
next
  case (Cons x xs)
  show ?case
  proof (cases "selection_shape x")
    case True
    then obtain s as q where s: "as_map x = Some s"
      and a: "as_slice (lookup s ''answers'') = Some as" and strs: "list_all is_string as"
      and q: "as_string (lookup s ''question'') = Some q"
      by (auto simp: selection_shape_def is_string_def split: option.splits)
    from strs have ok: "snd (answers_loop 0 as (replicate (length as) []) True)"
      by (rule answers_loop_ok) simp
    from Cons.prems True
    have "list_all answers_entries_strings xs" "find (\<lambda>v. \<not> selection_shape v) xs = Some v"
      by simp_all
    from Cons.IH [OF this] s a q ok show ?thesis
      by (simp add: split_beta)
  next
    case False
    with Cons.prems have v: "v = x" by simp
    show ?thesis
    proof (cases "as_map x")
      case None
      with v show ?thesis by (simp add: element_failure_def)
    next
      case (Some s)
      show ?thesis
      proof (cases "as_slice (lookup s ''answers'')")
        case None
        with Some v show ?thesis by (simp add: element_failure_def)
      next
        case (Some as)
        with \<open>as_map x = Some s\<close> Cons.prems have strs: "list_all is_string as"
          by (simp add: answers_entries_strings_def)
        then have ok: "snd (answers_loop 0 as (replicate (length as) []) True)"
          by (rule answers_loop_ok) simp
        from False \<open>as_map x = Some s\<close> Some strs
        have "as_string (lookup s ''question'') = None"
          by (simp add: selection_shape_def is_string_def split: option.splits)
        with \<open>as_map x = Some s\<close> Some ok v show ?thesis
          by (simp add: split_beta element_failure_def)
      qed
    qed
  qed
qed

lemma find_unshaped:
  "\<not> list_all selection_shape xs \<Longrightarrow> \<exists>v. find (\<lambda>v. \<not> selection_shape v) xs = Some v"
  by (induction xs) auto

text \<open>
  The inner check reads \<open>ok\<close> after the loop over the answers, so it sees the last
  entry only: an entry that is not a string, followed by a string, is stored as the
  empty string and the selection is accepted.
\<close>

lemma selections_stray_answer_accepted:
  "unmarshalPostMFA skip_element skip_element
     \<lparr>Status = ''201 Created'', Response_StatusCode = 201, Header = []\<rparr>
     (Some (JObj [(''access_token'', JStr ''tok''), (''type'', JStr ''selections''),
                  (''mfa'', JArr [JObj [(''question'', JStr ''Pick one''),
                                        (''answers'', JArr [JNumber (IntLit 1), JStr ''b''])]])]))
   = (None,
      Some \<lparr>AccessToken = ''tok'', Type = ''selections'', Device = \<lparr>Message = []\<rparr>, List = [],
            Questions = [],
            Selections = [\<lparr>Answers = [[], ''b''], Question = ''Pick one''\<rparr>]\<rparr>,
      None)"
  by (simp add: unmarshalPostMFA_def binding_eval mfa_eval)

text \<open>
  Claim C3, as the code has it.  The claim names one message for every failure of the
  selections shape.  The decoder has three, by cause: \<open>Could not decode selections
  mfa\<close> when the payload is no array or an element is no object, \<open>Could not decode
  selections answers\<close> when \<open>answers\<close> is no array, \<open>Could not decode selections
  questions\<close> when \<open>question\<close> is no string.  At status 201, for a body that binds to
  the intermediate shape with type \<open>selections\<close> and a payload whose \<open>answers\<close>
  entries are all strings: if the payload fails the shape, no challenge is returned and
  the error is the message of the cause, taken at the first element that fails.
\<close>

theorem selections_wrong_shape_fails:
  assumes "Response_StatusCode res = 201"
    and "Unmarshal set_mfaIntermediate raw zero_mfaIntermediate = (mfaInter, None)"
    and "mfaInter_Type mfaInter = ''selections''"
    and "no_stray_answer (mfaInter_MFA mfaInter)"
    and "\<not> selections_shape (mfaInter_MFA mfaInter)"
  shows "\<exists>msg. selections_failure (mfaInter_MFA mfaInter) = Some msg
           \<and> unmarshalPostMFA acct txn res raw = (None, None, Some (ErrorString msg))"
proof -
  let ?mfaRes = "\<lparr>AccessToken = mfaInter_AccessToken mfaInter, Type = mfaInter_Type mfaInter,
                    Device = \<lparr>Message = []\<rparr>, List = [], Questions = [], Selections = []\<rparr>"
  have "\<exists>msg. selections_failure (mfaInter_MFA mfaInter) = Some msg
          \<and> decode_selections (mfaInter_MFA mfaInter) ?mfaRes = Inl (ErrorString msg)"
  proof (cases "as_slice (mfaInter_MFA mfaInter)")
    case None
    then show ?thesis by (simp add: decode_selections_def selections_failure_def)
  next
    case (Some xs)
    with assms(4,5) have strs: "list_all answers_entries_strings xs"
      and "\<not> list_all selection_shape xs"
      by (simp_all add: no_stray_answer_def selections_shape_def)
    from find_unshaped [OF this(2)] obtain v
      where v: "find (\<lambda>v. \<not> selection_shape v) xs = Some v" by blast
    from selections_loop_fails [OF strs v, of ?mfaRes] Some v show ?thesis
      by (simp add: decode_selections_def selections_failure_def)
  qed
  then obtain msg where "selections_failure (mfaInter_MFA mfaInter) = Some msg"
    and "decode_selections (mfaInter_MFA mfaInter) ?mfaRes = Inl (ErrorString msg)"
    by blast
  with assms(1,2,3) show ?thesis
    by (simp add: unmarshalPostMFA_def decode_mfa_def)
qed

theorem selections_wrong_shape_fails_witness:
  "selections_failure
     (JArr [JObj [(''question'', JStr ''Pick one''), (''answers'', JArr [JStr ''a''])],
            JObj [(''question'', JNumber (IntLit 7)),
                  (''answers'', JArr [JStr ''a'', JStr ''b''])],
            JStr ''stray''])
   = Some ''Could not decode selections questions''
   \<and> unmarshalPostMFA skip_element skip_element
       \<lparr>Status = ''201 Created'', Response_StatusCode = 201, Header = []\<rparr>
       (Some (JObj [(''access_token'', JStr ''tok''), (''type'', JStr ''selections''),
                    (''mfa'',
                     JArr [JObj [(''question'', JStr ''Pick one''),
                                 (''answers'', JArr [JStr ''a''])],
                           JObj [(''question'', JNumber (IntLit 7)),
                                 (''answers'', JArr [JStr ''a'', JStr ''b''])],
                           JStr ''stray''])]))
     = (None, None, Some (ErrorString ''Could not decode selections questions''))"
proof -
  let ?mfa = "JArr [JObj [(''question'', JStr ''Pick one''), (''answers'', JArr [JStr ''a''])],
                    JObj [(''question'', JNumber (IntLit 7)),
                          (''answers'', JArr [JStr ''a'', JStr ''b''])],
                    JStr ''stray'']"
  let ?inter = "\<lparr>mfaInter_AccessToken = ''tok'', mfaInter_MFA = ?mfa,
                  mfaInter_Type = ''selections''\<rparr>"
  have 0: "interface_ok ?mfa"
    by (simp add: float64_limit_def)
  have 1: "Response_StatusCode \<lparr>Status = ''201 Created'', Response_StatusCode = 201, Header = []\<rparr>
             = 201"
    by simp
  have 2: "Unmarshal set_mfaIntermediate
             (Some (JObj [(''access_token'', JStr ''tok''), (''type'', JStr ''selections''),
                          (''mfa'', ?mfa)])) zero_mfaIntermediate = (?inter, None)"
    by (rule intermediate_binds [OF 0])
  have 3: "mfaInter_Type ?inter = ''selections''"
    by simp
  have 4: "no_stray_answer (mfaInter_MFA ?inter)"
    by (simp add: no_stray_answer_def answers_entries_strings_def is_string_def lookup_def)
  have 5: "\<not> selections_shape (mfaInter_MFA ?inter)"
    by (simp add: selections_shape_def selection_shape_def is_string_def lookup_def)
  have 6: "selections_failure ?mfa = Some ''Could not decode selections questions''"
    by (simp add: selections_failure_def selection_shape_def element_failure_def
          is_string_def lookup_def)
  from selections_wrong_shape_fails [OF 1 2 3 4 5, of skip_element skip_element] 6
  show ?thesis by simp
qed

text \<open>
  The claim as stated fails where \<open>answers\<close> is a string: the error is the answers
  message, not the one the claim names.
\<close>

theorem selections_answers_message_counterexample:
  "unmarshalPostMFA skip_element skip_element
     \<lparr>Status = ''201 Created'', Response_StatusCode = 201, Header = []\<rparr>
     (Some (JObj [(''access_token'', JStr ''tok''), (''type'', JStr ''selections''),
                  (''mfa'', JArr [JObj [(''question'', JStr ''Pick one''),
                                        (''answers'', JStr ''a'')]])]))
   = (None, None, Some (ErrorString ''Could not decode selections answers''))
   \<and> ErrorString ''Could not decode selections answers''
       \<noteq> ErrorString ''Could not decode selections mfa''"
  by (simp add: unmarshalPostMFA_def binding_eval mfa_eval)

section \<open>The error value\<close>

lemma Error_StatusCode_update:
  "Error (e\<lparr>StatusCode := sc\<rparr>) = Error e"
  by (simp add: Error_def)

text \<open>
  Claim C4.  The formatted string of a \<open>plaidError\<close> is built from \<open>ErrorCode\<close>,
  \<open>ErrorType\<close>, \<open>ErrorMessage\<close> and \<open>DisplayMessage\<close>; the text printed after
  \<open>http status:\<close> is the error code, and \<open>StatusCode\<close> appears nowhere: the errors
  of a 404 and of a 500 response with the same body format alike.
\<close>

theorem Error_omits_StatusCode:
  "Error \<lparr>ErrorCode = ''ITEM_NOT_FOUND'', ErrorType = ''ITEM_ERROR'',
          ErrorMessage = ''no such item'', DisplayMessage = ''try again'', StatusCode = 404\<rparr>
   = ''Plaid Error - http status: ITEM_NOT_FOUND, code: ITEM_ERROR, message: no such item, display: try again''
   \<and> Error \<lparr>ErrorCode = ''ITEM_NOT_FOUND'', ErrorType = ''ITEM_ERROR'',
          ErrorMessage = ''no such item'', DisplayMessage = ''try again'', StatusCode = 500\<rparr>
   = Error \<lparr>ErrorCode = ''ITEM_NOT_FOUND'', ErrorType = ''ITEM_ERROR'',
          ErrorMessage = ''no such item'', DisplayMessage = ''try again'', StatusCode = 404\<rparr>"
  by (simp add: Error_def)

section \<open>Failures of the institution lookup\<close>

lemma GetInstitutionById_never_reports:
  "(\<exists>err. GetInstitutionById http publicKey institutionId = Panics err)
   \<or> (\<exists>name printed. GetInstitutionById http publicKey institutionId = Returns name printed)"
  by (cases "GetInstitutionById http publicKey institutionId") simp_all

text \<open>
  Claim C5.  \<open>GetInstitutionById\<close> on a reply whose body is not JSON: the decode error
  is printed and the empty name is returned, as if the lookup had succeeded.
\<close>

theorem GetInstitutionById_swallows_decode_failure:
  "GetInstitutionById
     (replies (Received \<lparr>Status = ''502 Bad Gateway'', Response_StatusCode = 502, Header = []\<rparr> None))
     ''key'' ''ins_1''
   = Returns [] [SyntaxError]"
  by (simp add: GetInstitutionById_def replies_def Unmarshal_def)

section \<open>Transactions and the challenge\<close>

text \<open>
  Claim C8.  When the server answers the transactions request with status 201 and the
  decoder makes a challenge of the body, \<open>Transactions\<close> returns neither a payload nor
  an error: the challenge is dropped.
\<close>

theorem Transactions_discards_challenge:
  assumes "httpClient c ''POST'' (environment c @ ''/transactions/get'')
             [(''Content-Type'', ''application/json''), (''User-Agent'', ''plaid-go'')]
             jsonText = Received res raw"
    and "Marshal_transactionJson
           \<lparr>ClientID = clientID c, Secret = secret c, transactionJson_AccessToken = accessToken,
            StartDate = startDate, EndDate = endDate, Options = options\<rparr> = Inr jsonText"
    and "Response_StatusCode res = 201"
    and "unmarshalPostMFA acct txn res raw = (postRes, Some mfaRes, err)"
  shows "Client_Transactions acct txn c accessToken startDate endDate options = (None, None)"
proof -
  from outcome_shapes [of acct txn res raw] assms(4)
  have "postRes = None" "err = None" by auto
  with assms show ?thesis
    by (simp add: Client_Transactions_def postAndUnmarshal_def)
qed

theorem Transactions_discards_challenge_witness:
  "Client_Transactions skip_element skip_element
     \<lparr>clientID = ''client'', secret = ''s3cret'', environment = ''https://sandbox.plaid.com'',
      httpClient = replies (Received
        \<lparr>Status = ''201 Created'', Response_StatusCode = 201, Header = []\<rparr>
        (Some (JObj [(''access_token'', JStr ''tok''), (''type'', JStr ''device''),
                     (''mfa'', JObj [(''message'', JStr ''call your bank'')])])))\<rparr>
     ''tok'' ''2017-01-01'' ''2017-02-01'' \<lparr>Count = 100, Offset = 0\<rparr>
   = (None, None)"
proof -
  let ?res = "\<lparr>Status = ''201 Created'', Response_StatusCode = 201, Header = []\<rparr>"
  let ?raw = "Some (JObj [(''access_token'', JStr ''tok''), (''type'', JStr ''device''),
                     (''mfa'', JObj [(''message'', JStr ''call your bank'')])])"
  let ?c = "\<lparr>clientID = ''client'', secret = ''s3cret'', environment = ''https://sandbox.plaid.com'',
      httpClient = replies (Received ?res ?raw)\<rparr>"
  let ?t = "\<lparr>ClientID = clientID ?c, Secret = secret ?c, transactionJson_AccessToken = ''tok'',
            StartDate = ''2017-01-01'', EndDate = ''2017-02-01'',
            Options = \<lparr>Count = 100, Offset = 0\<rparr>\<rparr>"
  obtain jsonText where m: "Marshal_transactionJson ?t = Inr jsonText"
    by (simp add: Marshal_transactionJson_def)
  have h: "httpClient ?c ''POST'' (environment ?c @ ''/transactions/get'')
             [(''Content-Type'', ''application/json''), (''User-Agent'', ''plaid-go'')]
             jsonText = Received ?res ?raw"
    by (simp add: replies_def)
  have s: "Response_StatusCode ?res = 201"
    by simp
  have d: "unmarshalPostMFA skip_element skip_element ?res ?raw
           = (None,
              Some \<lparr>AccessToken = ''tok'', Type = ''device'',
                    Device = \<lparr>Message = ''call your bank''\<rparr>, List = [], Questions = [],
                    Selections = []\<rparr>,
              None)"
    by (simp add: unmarshalPostMFA_def binding_eval mfa_eval)
  show ?thesis
    by (rule Transactions_discards_challenge [OF h m s d])
qed

section \<open>The request round trip\<close>

lemma toValidUTF8_id: "validUTF8 s \<Longrightarrow> toValidUTF8 s = s"
proof (induction s rule: toValidUTF8.induct)
  case 1
  then show ?case by simp
next
  case (2 a cs)
  from "2.prems" have n: "rune_size (a # cs) \<noteq> 0"
    and v: "validUTF8 (drop (rune_size (a # cs) - 1) cs)"
    by simp_all
  from "2.IH"(2) n v
  have "toValidUTF8 (drop (rune_size (a # cs) - 1) cs) = drop (rune_size (a # cs) - 1) cs"
    by simp
  with n show ?case by simp
qed

lemma sint_in_int64: "- (2 ^ 63) \<le> sint (w :: go_int) \<and> sint w < 2 ^ 63"
  using sint_ge [of w] sint_lt [of w] by simp

lemma bind_int_sint: "bind_int (JNumber (IntLit (sint (w :: go_int)))) cur = (w, None)"
  using sint_in_int64 [of w] by simp

lemma fold_key_request_tags:
  "fold_key ''client_id'' = ''client_id''"
  "fold_key ''secret'' = ''secret''"
  "fold_key ''access_token'' = ''access_token''"
  "fold_key ''start_date'' = ''start_date''"
  "fold_key ''end_date'' = ''end_date''"
  "fold_key ''options'' = ''options''"
  "fold_key ''count'' = ''count''"
  "fold_key ''offset'' = ''offset''"
  by (simp_all add: lower_def byte_def)

lemma Unmarshal_options:
  "bind_struct set_TransactionOptionsJson (Marshal_TransactionOptionsJson opts) cur = (opts, None)"
  by (simp del: fold_key.simps bind_int.simps
        add: Marshal_TransactionOptionsJson_def set_TransactionOptionsJson_def
          fold_key_request_tags bind_int_sint first_error_def)

lemma bind_struct_object:
  "bind_struct set_field (JObj (m # ms)) s = object_into set_field (m # ms) s"
  by simp

lemma roundtrip_coerces:
  "roundtrip_transactionJson t =
     (\<lparr>ClientID = toValidUTF8 (ClientID t), Secret = toValidUTF8 (Secret t),
       transactionJson_AccessToken = toValidUTF8 (transactionJson_AccessToken t),
       StartDate = toValidUTF8 (StartDate t), EndDate = toValidUTF8 (EndDate t),
       Options = Options t\<rparr>, None)"
  by (simp del: fold_key.simps bind_struct.simps(2)
        add: roundtrip_transactionJson_def Marshal_transactionJson_def Unmarshal_def
          set_transactionJson_def fold_key_request_tags Unmarshal_options first_error_def
          zero_transactionJson_def bind_struct_object)

lemma validUTF8_examples:
  "validUTF8 ''client''" "validUTF8 ''s3cret''" "validUTF8 ''access-sandbox-1''"
  "validUTF8 ''2017-01-01''" "validUTF8 ''2017-02-01''"
  by (simp_all add: rune_size_def byte_def)

text \<open>
  Claim C10, as the code has it.  \<open>json.Marshal\<close> replaces every byte of a string
  that is not part of a well-formed UTF-8 sequence, so what is read back is the
  envelope with its strings coerced.  For an envelope whose five strings are valid
  UTF-8, marshalling and reading back gives the envelope itself, field for field, and no
  error.
\<close>

theorem roundtrip_valid_utf8:
  assumes "validUTF8 (ClientID t)" "validUTF8 (Secret t)"
    "validUTF8 (transactionJson_AccessToken t)" "validUTF8 (StartDate t)" "validUTF8 (EndDate t)"
  shows "roundtrip_transactionJson t = (t, None)"
  using assms by (simp add: roundtrip_coerces toValidUTF8_id)

theorem roundtrip_valid_utf8_witness:
  "roundtrip_transactionJson
     \<lparr>ClientID = ''client'', Secret = ''s3cret'',
      transactionJson_AccessToken = ''access-sandbox-1'', StartDate = ''2017-01-01'',
      EndDate = ''2017-02-01'', Options = \<lparr>Count = 100, Offset = - 1\<rparr>\<rparr>
   = (\<lparr>ClientID = ''client'', Secret = ''s3cret'',
      transactionJson_AccessToken = ''access-sandbox-1'', StartDate = ''2017-01-01'',
      EndDate = ''2017-02-01'', Options = \<lparr>Count = 100, Offset = - 1\<rparr>\<rparr>, None)"
  using roundtrip_valid_utf8
    [of "\<lparr>ClientID = ''client'', Secret = ''s3cret'',
      transactionJson_AccessToken = ''access-sandbox-1'', StartDate = ''2017-01-01'',
      EndDate = ''2017-02-01'', Options = \<lparr>Count = 100, Offset = - 1\<rparr>\<rparr>"]
    validUTF8_examples
  by simp

text \<open>
  The claim as stated fails for a client id that is the single byte \<open>0xFF\<close>: it comes
  back as U+FFFD.
\<close>

theorem roundtrip_invalid_utf8_counterexample:
  "fst (roundtrip_transactionJson
     \<lparr>ClientID = [CHR 0xFF], Secret = ''s3cret'',
      transactionJson_AccessToken = ''access-sandbox-1'', StartDate = ''2017-01-01'',
      EndDate = ''2017-02-01'', Options = \<lparr>Count = 100, Offset = 0\<rparr>\<rparr>)
   \<noteq> \<lparr>ClientID = [CHR 0xFF], Secret = ''s3cret'',
      transactionJson_AccessToken = ''access-sandbox-1'', StartDate = ''2017-01-01'',
      EndDate = ''2017-02-01'', Options = \<lparr>Count = 100, Offset = 0\<rparr>\<rparr>"
  by (simp add: roundtrip_coerces rune_size_def byte_def replacement_def)

end
